theory Spec2Isabelle
  imports Complex_Main "HOL-Library.Multiset"
begin

section \<open>The MultimodalSection demo component\<close>

text \<open>
  The component of the AI demo page keeps five pieces of React state: the text typed by
  the user, an optional image file, an optional video file, the result shown and the
  loading flag. A JavaScript string is a sequence of UTF-16 code units; files are values
  of an arbitrary type \<open>'f\<close>, the JSON sent by the server values of an arbitrary type
  \<open>'j\<close>.
\<close>

type_synonym jsstring = "nat list"

text \<open>
  \<open>String.prototype.trim\<close> removes the ECMAScript WhiteSpace and LineTerminator code
  points from both ends.
\<close>

definition is_js_whitespace :: "nat \<Rightarrow> bool" where
  "is_js_whitespace c \<longleftrightarrow>
     c \<in> set [0x0009, 0x000A, 0x000B, 0x000C, 0x000D, 0x0020, 0x00A0, 0x1680,
              0x2000, 0x2001, 0x2002, 0x2003, 0x2004, 0x2005, 0x2006, 0x2007,
              0x2008, 0x2009, 0x200A, 0x2028, 0x2029, 0x202F, 0x205F, 0x3000, 0xFEFF]"

definition trim :: "jsstring \<Rightarrow> jsstring" where
  "trim s = rev (dropWhile is_js_whitespace (rev (dropWhile is_js_whitespace s)))"

text \<open>A string is truthy when it is not empty; a \<open>File | null\<close> when it is not null.\<close>

definition truthy_string :: "jsstring \<Rightarrow> bool" where
  "truthy_string s \<longleftrightarrow> s \<noteq> []"

definition truthy_file :: "'f option \<Rightarrow> bool" where
  "truthy_file f \<longleftrightarrow> f \<noteq> None"

record individual_results =
  ir_text :: "string option"
  ir_image :: "string option"
  ir_video :: "string option"

record mock_data =
  summary :: string
  modalities :: "string list"
  individual :: individual_results

datatype 'j ai_result =
    ServerResult 'j
  | MockResult string rat mock_data

record ('f, 'j) ui_state =
  textInput :: jsstring
  imageFile :: "'f option"
  videoFile :: "'f option"
  result :: "'j ai_result option"
  loading :: bool

definition getModalityCount :: "('f, 'j) ui_state \<Rightarrow> nat" where
  "getModalityCount s =
     (let count = 0;
          count = (if truthy_string (trim (textInput s)) then count + 1 else count);
          count = (if truthy_file (imageFile s) then count + 1 else count);
          count = (if truthy_file (videoFile s) then count + 1 else count)
      in count)"

definition getUsedModalities :: "('f, 'j) ui_state \<Rightarrow> string list" where
  "getUsedModalities s =
     (let modalities = [];
          modalities = (if truthy_string (trim (textInput s))
                        then modalities @ [''Text''] else modalities);
          modalities = (if truthy_file (imageFile s)
                        then modalities @ [''Image''] else modalities);
          modalities = (if truthy_file (videoFile s)
                        then modalities @ [''Video''] else modalities)
      in modalities)"

text \<open>
  The request built by \<open>handleProcess\<close>: a POST of a form whose fields are appended in
  the order text, image, video. The text field carries the untrimmed input.
\<close>

datatype 'f form_value = TextValue jsstring | FileValue 'f

record 'f http_request =
  url :: string
  http_method :: string
  body :: "(string \<times> 'f form_value) list"

text \<open>
  What \<open>await fetch(...)\<close> followed by \<open>await response.json()\<close> can do: deliver a
  response with \<open>ok\<close> set and a JSON body, deliver a response without \<open>ok\<close>, or throw.
\<close>

datatype 'j fetch_outcome = ResponseOk 'j | ResponseNotOk | Throws

definition formData :: "('f, 'j) ui_state \<Rightarrow> (string \<times> 'f form_value) list" where
  "formData s =
     (if truthy_string (trim (textInput s)) then [(''text'', TextValue (textInput s))] else [])
     @ (case imageFile s of Some f \<Rightarrow> [(''image'', FileValue f)] | None \<Rightarrow> [])
     @ (case videoFile s of Some f \<Rightarrow> [(''video'', FileValue f)] | None \<Rightarrow> [])"

definition mockResult :: "('f, 'j) ui_state \<Rightarrow> 'j ai_result" where
  "mockResult s =
     MockResult ''Multimodal Analysis'' (89 / 100)
       \<lparr> summary = ''Combined analysis reveals strong correlation between input modalities. The AI has successfully processed and integrated multiple data types.'',
         modalities = getUsedModalities s,
         individual =
           \<lparr> ir_text = (if truthy_string (trim (textInput s))
                        then Some ''Text sentiment: Positive (0.87)'' else None),
             ir_image = (if truthy_file (imageFile s)
                         then Some ''Image contains: Person, outdoor scene (0.92)'' else None),
             ir_video = (if truthy_file (videoFile s)
                         then Some ''Video analysis: Motion detected, 2 objects tracked (0.88)''
                         else None) \<rparr> \<rparr>"

text \<open>
  \<open>handleProcess\<close> run to completion on the state \<open>s\<close> of the render it closes over: the
  state after all its updates, and the network requests it issued, in order. The network
  is the function \<open>net\<close> from the request to what the fetch does.
\<close>

definition handleProcess ::
  "('f http_request \<Rightarrow> 'j fetch_outcome) \<Rightarrow> ('f, 'j) ui_state
     \<Rightarrow> ('f, 'j) ui_state \<times> 'f http_request list" where
  "handleProcess net s =
     (if getModalityCount s < 2 then (s, [])
      else
        let s1 = s\<lparr>loading := True\<rparr>;
            req = \<lparr> url = ''http://localhost:8000/analyze/multimodal/'',
                    http_method = ''POST'',
                    body = formData s \<rparr>;
            s2 = (case net req of
                    ResponseOk j \<Rightarrow> s1\<lparr>result := Some (ServerResult j)\<rparr>
                  | ResponseNotOk \<Rightarrow> s1\<lparr>result := Some (mockResult s)\<rparr>
                  | Throws \<Rightarrow> s1\<lparr>result := Some (mockResult s)\<rparr>)
        in (s2\<lparr>loading := False\<rparr>, [req]))"

text \<open>The three inputs of a state, as presence flags in the order text, image, video.\<close>

definition present_inputs :: "('f, 'j) ui_state \<Rightarrow> bool list" where
  "present_inputs s =
     [trim (textInput s) \<noteq> [], imageFile s \<noteq> None, videoFile s \<noteq> None]"

section \<open>The fusion strategy of the usage guide\<close>

text \<open>
  \<open>docs/usage.md\<close> gives the one fusion function whose body is in the repository,
  \<open>custom_fusion_strategy\<close>: a weighted averaging of the embeddings. A one-dimensional
  tensor is a list of numbers; the entries are taken as real numbers, so the arithmetic
  below is exact. A Python \<open>dict\<close> iterates in insertion order, so the embeddings are an
  association list; the weights are only looked up, so they are a map.
\<close>

type_synonym tensor = "real list"

datatype strategy_error = KeyError | RuntimeError | DimensionMismatchError

text \<open>\<open>embedding * w\<close>: every entry times the scalar.\<close>

definition tensor_mul :: "tensor \<Rightarrow> real \<Rightarrow> tensor" where
  "tensor_mul embedding w = map (\<lambda>x. x * w) embedding"

text \<open>
  The \<open>for\<close> loop: \<open>weights[modality]\<close> raises \<open>KeyError\<close> at the first modality
  without a weight; otherwise the weighted embedding is appended.
\<close>

fun weighting_loop ::
  "(string \<rightharpoonup> real) \<Rightarrow> (string \<times> tensor) list \<Rightarrow> tensor list
     \<Rightarrow> strategy_error + tensor list" where
  "weighting_loop weights [] weighted_embeddings = Inr weighted_embeddings"
| "weighting_loop weights ((modality, embedding) # rest) weighted_embeddings =
     (case weights modality of
        None \<Rightarrow> Inl KeyError
      | Some w \<Rightarrow>
          weighting_loop weights rest (weighted_embeddings @ [tensor_mul embedding w]))"

text \<open>
  \<open>torch.stack\<close> raises \<open>RuntimeError\<close> on an empty list and on tensors of different
  sizes; otherwise the tensors become the rows of the stacked tensor.
\<close>

definition torch_stack :: "tensor list \<Rightarrow> strategy_error + tensor list" where
  "torch_stack ts =
     (case ts of
        [] \<Rightarrow> Inl RuntimeError
      | t # rest \<Rightarrow>
          if list_all (\<lambda>u. length u = length t) rest then Inr ts else Inl RuntimeError)"

text \<open>\<open>.mean(dim=0)\<close> of a stacked tensor: column by column, the sum over the rows
  divided by the number of rows.\<close>

definition mean_dim0 :: "tensor list \<Rightarrow> tensor" where
  "mean_dim0 rows =
     map (\<lambda>j. (\<Sum>r\<leftarrow>rows. r ! j) / real (length rows)) [0..<length (hd rows)]"

definition default_weights :: "(string \<times> tensor) list \<Rightarrow> (string \<rightharpoonup> real)" where
  "default_weights embeddings = map_of (map (\<lambda>(k, e). (k, 1)) embeddings)"

definition custom_fusion_strategy ::
  "(string \<times> tensor) list \<Rightarrow> (string \<rightharpoonup> real) option \<Rightarrow> strategy_error + tensor" where
  "custom_fusion_strategy embeddings weights =
     (let weights = (case weights of None \<Rightarrow> default_weights embeddings | Some ws \<Rightarrow> ws)
      in case weighting_loop weights embeddings [] of
           Inl e \<Rightarrow> Inl e
         | Inr weighted_embeddings \<Rightarrow>
             (case torch_stack weighted_embeddings of
                Inl e \<Rightarrow> Inl e
              | Inr stacked \<Rightarrow> Inr (mean_dim0 stacked)))"

text \<open>
  The weighted average in the words of the specification, for comparison: every vector
  times its weight divided by the sum of the supplied weights, summed over the modalities.
  \<open>d\<close> is the common dimension.
\<close>

definition spec_weight_sum :: "(string \<times> tensor) list \<Rightarrow> (string \<rightharpoonup> real) \<Rightarrow> real" where
  "spec_weight_sum embeddings ws = (\<Sum>(k, e)\<leftarrow>embeddings. the (ws k))"

definition spec_weighted_average ::
  "nat \<Rightarrow> (string \<times> tensor) list \<Rightarrow> (string \<rightharpoonup> real) \<Rightarrow> tensor" where
  "spec_weighted_average d embeddings ws =
     map (\<lambda>j. \<Sum>(k, e)\<leftarrow>embeddings. the (ws k) / spec_weight_sum embeddings ws * (e ! j))
       [0..<d]"

text \<open>What the function of the guide computes, in closed form.\<close>

definition unnormalized_average ::
  "nat \<Rightarrow> (string \<times> tensor) list \<Rightarrow> (string \<rightharpoonup> real) \<Rightarrow> tensor" where
  "unnormalized_average d embeddings ws =
     map (\<lambda>j. (\<Sum>(k, e)\<leftarrow>embeddings. the (ws k) * (e ! j)) / real (length embeddings))
       [0..<d]"

text \<open>Every weight of a mapping times the same constant.\<close>

definition scale_weights :: "real \<Rightarrow> (string \<rightharpoonup> real) \<Rightarrow> (string \<rightharpoonup> real)" where
  "scale_weights c ws = (\<lambda>k. map_option (\<lambda>w. c * w) (ws k))"

text \<open>A well-formed input of the weighted average: a dictionary (no key twice) of at
  least one embedding, all of dimension \<open>d\<close>.\<close>

definition common_dimension :: "nat \<Rightarrow> (string \<times> tensor) list \<Rightarrow> bool" where
  "common_dimension d embeddings \<longleftrightarrow>
     embeddings \<noteq> [] \<and> distinct (map fst embeddings)
     \<and> list_all (\<lambda>(k, e). length e = d) embeddings"

definition weights_cover :: "(string \<times> tensor) list \<Rightarrow> (string \<rightharpoonup> real) \<Rightarrow> bool" where
  "weights_cover embeddings ws \<longleftrightarrow> list_all (\<lambda>(k, e). ws k \<noteq> None) embeddings"

text \<open>
  The caching sketch of the guide: \<open>functools.lru_cache(maxsize=1000)\<close> around
  \<open>cached_inference(input_hash)\<close>, whose body is \<open>model.encode(input_text)\<close>. The body
  reads the global \<open>input_text\<close>, not its parameter. The cache is the list of its
  entries, the most recently used first; \<open>encode\<close> stands for \<open>model.encode\<close>.
\<close>

record 'e world =
  input_text :: string
  lru :: "(string \<times> 'e) list"

definition maxsize :: nat where
  "maxsize = 1000"

text \<open>The undecorated function: what a call computes when nothing is cached.\<close>

definition inference :: "(string \<Rightarrow> 'e) \<Rightarrow> string \<Rightarrow> 'e world \<Rightarrow> 'e" where
  "inference encode input_hash w = encode (input_text w)"

definition cached_inference ::
  "(string \<Rightarrow> 'e) \<Rightarrow> string \<Rightarrow> 'e world \<Rightarrow> 'e \<times> 'e world" where
  "cached_inference encode input_hash w =
     (case map_of (lru w) input_hash of
        Some v \<Rightarrow>
          (v, w\<lparr>lru := (input_hash, v) # filter (\<lambda>(k, u). k \<noteq> input_hash) (lru w)\<rparr>)
      | None \<Rightarrow>
          (let v = inference encode input_hash w
           in (v, w\<lparr>lru := take maxsize ((input_hash, v) # lru w)\<rparr>)))"

text \<open>The caller's assignment to the global between two calls.\<close>

definition set_input_text :: "string \<Rightarrow> 'e world \<Rightarrow> 'e world" where
  "set_input_text t w = w\<lparr>input_text := t\<rparr>"

section \<open>Properties of the demo component\<close>

lemma getModalityCount_present:
  "getModalityCount s = length (filter id (present_inputs s))"
  by (simp add: getModalityCount_def present_inputs_def truthy_string_def truthy_file_def)

text \<open>
  Claim C10. In every state of the component, \<open>getUsedModalities\<close> returns exactly the
  names of the inputs that are present, in the fixed order Text, Image, Video, and the
  length of that list is the number \<open>getModalityCount\<close> returns.
\<close>

theorem getUsedModalities_names_and_count:
  "getUsedModalities s
     = map fst (filter snd (zip [''Text'', ''Image'', ''Video''] (present_inputs s)))
   \<and> length (getUsedModalities s) = getModalityCount s"
  by (simp add: getUsedModalities_def getModalityCount_def present_inputs_def
        truthy_string_def truthy_file_def)

text \<open>
  Claim C9. When fewer than two of the three inputs (non-blank text, image file, video
  file) are present, \<open>handleProcess\<close> returns at once: no network request is issued and
  the state, so also the result and the loading flag, is the one it started from. A
  request is issued only when \<open>getModalityCount\<close> is at least two, and then it is exactly
  one.
\<close>

theorem handleProcess_needs_two_modalities:
  "(length (filter id (present_inputs s)) < 2 \<longrightarrow> handleProcess net s = (s, []))
   \<and> (snd (handleProcess net s) \<noteq> [] \<longrightarrow> 2 \<le> getModalityCount s)
   \<and> (2 \<le> getModalityCount s \<longrightarrow> length (snd (handleProcess net s)) = 1)"
  by (simp add: handleProcess_def getModalityCount_present Let_def)

text \<open>
  The claim at two concrete states: blank text with an image only (one modality, nothing
  happens), and the text \<open>hi\<close> with an image (two modalities, one request).
\<close>

theorem handleProcess_needs_two_modalities_witness:
  "length (filter id (present_inputs
      \<lparr>textInput = [32, 32], imageFile = Some (7::nat), videoFile = None,
       result = (None :: nat ai_result option), loading = False\<rparr>)) < 2
   \<and> handleProcess (\<lambda>r. ResponseOk 0)
        \<lparr>textInput = [32, 32], imageFile = Some (7::nat), videoFile = None,
         result = (None :: nat ai_result option), loading = False\<rparr>
       = (\<lparr>textInput = [32, 32], imageFile = Some 7, videoFile = None,
           result = None, loading = False\<rparr>, [])
   \<and> 2 \<le> getModalityCount
        \<lparr>textInput = [104, 105], imageFile = Some (7::nat), videoFile = None,
         result = (None :: nat ai_result option), loading = False\<rparr>
   \<and> length (snd (handleProcess (\<lambda>r. ResponseOk 0)
        \<lparr>textInput = [104, 105], imageFile = Some (7::nat), videoFile = None,
         result = (None :: nat ai_result option), loading = False\<rparr>)) = 1"
proof -
  let ?a = "\<lparr>textInput = [32, 32], imageFile = Some (7::nat), videoFile = None,
             result = (None :: nat ai_result option), loading = False\<rparr>"
  let ?b = "\<lparr>textInput = [104, 105], imageFile = Some (7::nat), videoFile = None,
             result = (None :: nat ai_result option), loading = False\<rparr>"
  have one: "length (filter id (present_inputs ?a)) < 2"
    by (simp add: present_inputs_def trim_def is_js_whitespace_def)
  have two: "2 \<le> getModalityCount ?b"
    by (simp add: getModalityCount_def truthy_string_def truthy_file_def trim_def
          is_js_whitespace_def)
  from one two
    handleProcess_needs_two_modalities [of ?a "\<lambda>r. ResponseOk 0"]
    handleProcess_needs_two_modalities [of ?b "\<lambda>r. ResponseOk 0"]
  show ?thesis by blast
qed

end
